theory Spec2Isabelle
  imports Complex_Main
begin

text \<open>
  A shallow embedding of \<^verbatim>\<open>deta/base.py\<close>, the client of the Deta Base key-value
  store: the values it handles, its TTL normalizer \<^verbatim>\<open>insert_ttl\<close>, and the
  operations \<^verbatim>\<open>get\<close>, \<^verbatim>\<open>delete\<close>, \<^verbatim>\<open>insert\<close>, \<^verbatim>\<open>put\<close>,
  \<^verbatim>\<open>put_many\<close>, \<^verbatim>\<open>fetch\<close> and \<^verbatim>\<open>update\<close> of \<^verbatim>\<open>_Base\<close>. An operation
  takes the state (the store of dict objects, the requests made, the clock) and returns
  its result, a value or the exception raised, with the new state.
\<close>

section \<open>Python values\<close>

text \<open>
  A float is a rational (the doubles are among them) or one of the three special values;
  the code only tests floats for zero and converts them with \<^verbatim>\<open>int()\<close>, and both
  read the value of the double exactly. No arithmetic on floats is done in \<^verbatim>\<open>base.py\<close>;
  the floats it meets are arguments and results of library calls.
\<close>

datatype pyfloat = Fin rat | PosInf | NegInf | NaN

text \<open>
  \<^verbatim>\<open>datetime.datetime\<close>. The code handles a datetime only through
  \<^verbatim>\<open>replace(microsecond=0)\<close> and the library call \<^verbatim>\<open>timestamp()\<close>, so a datetime
  is represented by the POSIX second that its calendar fields (year to second, with its
  time zone) denote, and its microsecond field (0 to 999999). \<^verbatim>\<open>instant\<close> is the
  point in time the datetime denotes, in seconds since the epoch, as an exact number.
\<close>

record datetime =
  epoch_second :: int
  microsecond :: nat

definition instant :: "datetime \<Rightarrow> rat" where
  "instant d = of_int (epoch_second d) + of_nat (microsecond d) / 1000000"

text \<open>
  The values the client handles: the JSON data types, datetimes, and the four marker
  classes of \<^verbatim>\<open>Util\<close>. A dict is an association list in insertion order (keys are
  attribute names). \<^verbatim>\<open>VIncrement\<close>, \<^verbatim>\<open>VAppend\<close> and \<^verbatim>\<open>VPrepend\<close>
  carry the marker's \<^verbatim>\<open>value\<close> attribute.
\<close>

datatype pyval =
    VNone
  | VBool bool
  | VInt int
  | VFloat pyfloat
  | VStr string
  | VList "pyval list"
  | VDict "(string \<times> pyval) list"
  | VDatetime datetime
  | VTrim
  | VIncrement pyval
  | VAppend pyval
  | VPrepend pyval

type_synonym dict = "(string \<times> pyval) list"

text \<open>\<^verbatim>\<open>bool(v)\<close>, as \<^verbatim>\<open>if v\<close>, \<^verbatim>\<open>not v\<close> and \<^verbatim>\<open>and\<close> test it.\<close>

fun truthy :: "pyval \<Rightarrow> bool" where
  "truthy VNone = False"
| "truthy (VBool b) = b"
| "truthy (VInt n) = (n \<noteq> 0)"
| "truthy (VFloat x) = (x \<noteq> Fin 0)"
| "truthy (VStr s) = (s \<noteq> [])"
| "truthy (VList xs) = (xs \<noteq> [])"
| "truthy (VDict d) = (d \<noteq> [])"
| "truthy (VDatetime d) = True"
| "truthy VTrim = True"
| "truthy (VIncrement x) = True"
| "truthy (VAppend x) = True"
| "truthy (VPrepend x) = True"

text \<open>\<^verbatim>\<open>d[k] = v\<close> on a dict: an existing key keeps its place, a new key goes last.\<close>

fun dict_set :: "(string \<times> 'v) list \<Rightarrow> string \<Rightarrow> 'v \<Rightarrow> (string \<times> 'v) list" where
  "dict_set [] k v = [(k, v)]"
| "dict_set ((k', v') # d) k v =
     (if k' = k then (k, v) # d else (k', v') # dict_set d k v)"

fun isinstance_bool :: "pyval \<Rightarrow> bool" where
  "isinstance_bool (VBool b) = True"
| "isinstance_bool _ = False"

text \<open>\<^verbatim>\<open>isinstance(v, (int, float))\<close>; \<^verbatim>\<open>bool\<close> is a subclass of \<^verbatim>\<open>int\<close>.\<close>

fun isinstance_int_float :: "pyval \<Rightarrow> bool" where
  "isinstance_int_float (VInt n) = True"
| "isinstance_int_float (VBool b) = True"
| "isinstance_int_float (VFloat x) = True"
| "isinstance_int_float _ = False"

text \<open>\<^verbatim>\<open>isinstance(v, Sequence)\<close>: of the values here, lists and strings.\<close>

fun isinstance_Sequence :: "pyval \<Rightarrow> bool" where
  "isinstance_Sequence (VList xs) = True"
| "isinstance_Sequence (VStr s) = True"
| "isinstance_Sequence _ = False"

section \<open>Errors\<close>

text \<open>
  The messages of the exceptions raised in \<^verbatim>\<open>base.py\<close>; a message built by an
  f-string carries the value formatted into it.
  \<^item> \<^verbatim>\<open>Key_must_be_non_empty\<close>: "parameter 'key' must be a non-empty string"
  \<^item> \<^verbatim>\<open>Item_already_exists key\<close>: f"item with  key '{key}' already exists"
  \<^item> \<^verbatim>\<open>Too_many_items\<close>: "cannot put more than 25 items at a time"
  \<^item> \<^verbatim>\<open>Key_not_found key\<close>: f"key '{key}' not found"
  \<^item> \<^verbatim>\<open>Mutually_exclusive\<close>: "'expire_in' and 'expire_at' are mutually exclusive parameters"
  \<^item> \<^verbatim>\<open>Expire_at_type\<close>: "'expire_at' must be of type 'int', 'float' or 'datetime'"
  \<^item> \<^verbatim>\<open>By_library\<close>: raised inside a library call or a built-in operation
\<close>

datatype message =
    Key_must_be_non_empty
  | Item_already_exists pyval
  | Too_many_items
  | Key_not_found pyval
  | Mutually_exclusive
  | Expire_at_type
  | By_library

datatype error =
    ValueError message
  | TypeError message
  | AttributeError
  | KeyError pyval
  | IndexError
  | OverflowError
  | OSError
  | RequestFailure int pyval

text \<open>The exceptions a call into the datetime library can raise, as they reach the caller.\<close>

datatype library_error = Lib_TypeError | Lib_ValueError | Lib_OverflowError | Lib_OSError

fun raised :: "library_error \<Rightarrow> error" where
  "raised Lib_TypeError = TypeError By_library"
| "raised Lib_ValueError = ValueError By_library"
| "raised Lib_OverflowError = OverflowError"
| "raised Lib_OSError = OSError"

section \<open>Built-in and library operations\<close>

text \<open>
  \<^verbatim>\<open>int(x)\<close> for the arguments the code passes, which are ints, bools and floats:
  a float is truncated towards zero, an infinity raises OverflowError and a NaN
  ValueError.
\<close>

fun py_int :: "pyval \<Rightarrow> error + int" where
  "py_int (VInt n) = Inr n"
| "py_int (VBool b) = Inr (if b then 1 else 0)"
| "py_int (VFloat (Fin q)) = Inr (if 0 \<le> q then \<lfloor>q\<rfloor> else \<lceil>q\<rceil>)"
| "py_int (VFloat PosInf) = Inl OverflowError"
| "py_int (VFloat NegInf) = Inl OverflowError"
| "py_int (VFloat NaN) = Inl (ValueError By_library)"
| "py_int _ = Inl (TypeError By_library)"

text \<open>\<^verbatim>\<open>d.replace(microsecond=m)\<close>.\<close>

definition replace_microsecond :: "datetime \<Rightarrow> nat \<Rightarrow> datetime" where
  "replace_microsecond d m = d\<lparr>microsecond := m\<rparr>"

text \<open>\<^verbatim>\<open>obj[k]\<close> for a string \<^verbatim>\<open>k\<close>, and \<^verbatim>\<open>obj[i]\<close> for an integer \<^verbatim>\<open>i\<close>.\<close>

fun getitem_str :: "pyval \<Rightarrow> string \<Rightarrow> error + pyval" where
  "getitem_str (VDict d) k =
     (case map_of d k of Some v \<Rightarrow> Inr v | None \<Rightarrow> Inl (KeyError (VStr k)))"
| "getitem_str _ k = Inl (TypeError By_library)"

definition index_list :: "'a list \<Rightarrow> int \<Rightarrow> error + 'a" where
  "index_list xs i =
     (if 0 \<le> i \<and> i < int (length xs) then Inr (xs ! nat i)
      else if i < 0 \<and> - int (length xs) \<le> i then Inr (xs ! nat (int (length xs) + i))
      else Inl IndexError)"

fun getitem_int :: "pyval \<Rightarrow> int \<Rightarrow> error + pyval" where
  "getitem_int (VList xs) i = index_list xs i"
| "getitem_int (VStr s) i =
     (case index_list s i of Inl e \<Rightarrow> Inl e | Inr c \<Rightarrow> Inr (VStr [c]))"
| "getitem_int (VDict d) i = Inl (KeyError (VInt i))"
| "getitem_int _ i = Inl (TypeError By_library)"

text \<open>\<^verbatim>\<open>obj.get(k)\<close>: only a dict has the method.\<close>

fun py_get :: "pyval \<Rightarrow> string \<Rightarrow> error + pyval" where
  "py_get (VDict d) k = Inr (case map_of d k of Some v \<Rightarrow> v | None \<Rightarrow> VNone)"
| "py_get _ k = Inl AttributeError"

section \<open>The store, the transport and the clock\<close>

text \<open>
  A dict that the caller owns, or that the client creates and then mutates, is an
  object in the store; \<^verbatim>\<open>Ref a\<close> is a reference to the dict at address \<^verbatim>\<open>a\<close>.
  \<^verbatim>\<open>Val v\<close> is any other argument (\<^verbatim>\<open>Val (VDict d)\<close> is a dict nobody else refers
  to, such as a literal at the call site). The dicts nested in a value are never
  mutated by the client and stay values.
\<close>

type_synonym addr = nat

datatype arg = Ref addr | Val pyval

datatype http_method = GET | POST | PUT | PATCH | DELETE

text \<open>
  \<^verbatim>\<open>JSON_MIME\<close> is imported from the \<^verbatim>\<open>service\<close> module, which is not among the
  sources; it stays a symbolic constant.
\<close>

datatype mime = JSON_MIME

record request =
  path :: string
  verb :: http_method
  body :: "pyval option"
  content_type :: "mime option"

text \<open>
  The state: the store of dict objects (addresses below \<^verbatim>\<open>next_addr\<close> are
  allocated), the requests handed to the transport so far, and the number of clock
  readings taken.
\<close>

record state =
  heap :: "addr \<Rightarrow> dict"
  next_addr :: addr
  requests :: "request list"
  ticks :: nat

text \<open>
  The collaborators outside \<^verbatim>\<open>base.py\<close>, as parameters.
  \<^item> \<^verbatim>\<open>transport\<close>: Modelled from the spec: \<^verbatim>\<open>_Service._request\<close> is not among the
    sources. By the spec's contract it takes path, method, body and content type and
    returns the status code and the decoded body, or fails; here it answers a request
    given the requests made before.
  \<^item> \<^verbatim>\<open>clock\<close>: the successive readings of \<^verbatim>\<open>datetime.datetime.now()\<close>.
  \<^item> \<^verbatim>\<open>add_seconds d x\<close>: \<^verbatim>\<open>d + datetime.timedelta(seconds=x)\<close>, which raises
    TypeError for an \<^verbatim>\<open>x\<close> that is no number, ValueError for a NaN and
    OverflowError for a result out of range.
  \<^item> \<^verbatim>\<open>timestamp d\<close>: \<^verbatim>\<open>d.timestamp()\<close>, which returns a float (a double, so
    not always the exact \<^verbatim>\<open>instant\<close>) or raises ValueError, OverflowError or OSError
    for a datetime outside the range the platform converts.
  \<^item> \<^verbatim>\<open>quote\<close>: \<^verbatim>\<open>urllib.parse.quote(k, safe="")\<close> on a string.
\<close>

record env =
  transport :: "request list \<Rightarrow> request \<Rightarrow> error + (int \<times> pyval)"
  clock :: "nat \<Rightarrow> datetime"
  add_seconds :: "datetime \<Rightarrow> pyval \<Rightarrow> library_error + datetime"
  timestamp :: "datetime \<Rightarrow> library_error + pyfloat"
  quote :: "string \<Rightarrow> string"

definition now :: "env \<Rightarrow> state \<Rightarrow> datetime \<times> state" where
  "now env s = (clock env (ticks s), s\<lparr>ticks := Suc (ticks s)\<rparr>)"

text \<open>\<^verbatim>\<open>quote(key, safe="")\<close> on any value: only a string is accepted.\<close>

fun py_quote :: "env \<Rightarrow> pyval \<Rightarrow> error + string" where
  "py_quote env (VStr k) = Inr (quote env k)"
| "py_quote env _ = Inl (TypeError By_library)"

text \<open>A new dict object, and \<^verbatim>\<open>obj[k] = v\<close> on the dict object at an address.\<close>

definition new_dict :: "dict \<Rightarrow> state \<Rightarrow> addr \<times> state" where
  "new_dict d s =
     (next_addr s, s\<lparr>heap := (heap s)(next_addr s := d), next_addr := Suc (next_addr s)\<rparr>)"

definition setitem :: "addr \<Rightarrow> string \<Rightarrow> pyval \<Rightarrow> state \<Rightarrow> state" where
  "setitem a k v s = s\<lparr>heap := (heap s)(a := dict_set (heap s a) k v)\<rparr>"

text \<open>
  \<^verbatim>\<open>self._request(path, method, data, content_type=...)\<close>: the request is handed to
  the transport, whose answer (or exception) is the result.
\<close>

definition service_request :: "env \<Rightarrow> string \<Rightarrow> http_method \<Rightarrow> pyval option \<Rightarrow> mime option \<Rightarrow>
    state \<Rightarrow> (error + (int \<times> pyval)) \<times> state" where
  "service_request env p m b c s =
     (let r = \<lparr>path = p, verb = m, body = b, content_type = c\<rparr>
      in (transport env (requests s) r, s\<lparr>requests := requests s @ [r]\<rparr>))"

section \<open>The TTL normalizer\<close>

definition BASE_TTL_ATTRIBUTE :: string where
  "BASE_TTL_ATTRIBUTE = ''__expires''"

text \<open>
  \<^verbatim>\<open>insert_ttl(item, ttl_attribute, expire_in, expire_at)\<close>, with \<^verbatim>\<open>item\<close> the
  address of the dict it writes to. An exception leaves the state as it was when it
  was raised.
\<close>

definition insert_ttl :: "env \<Rightarrow> addr \<Rightarrow> string \<Rightarrow> pyval \<Rightarrow> pyval \<Rightarrow> state \<Rightarrow>
    (error + unit) \<times> state" where
  "insert_ttl env item ttl_attribute expire_in expire_at s =
     (if truthy expire_in \<and> truthy expire_at then (Inl (ValueError Mutually_exclusive), s)
      else if \<not> truthy expire_in \<and> \<not> truthy expire_at then (Inr (), s)
      else
        case (if truthy expire_in
              then (case now env s of (n, s1) \<Rightarrow>
                      (case add_seconds env n expire_in of
                         Inl e \<Rightarrow> (Inl (raised e), s1)
                       | Inr d \<Rightarrow> (Inr (VDatetime d), s1)))
              else (Inr expire_at, s)) of
          (Inl e, s1) \<Rightarrow> (Inl e, s1)
        | (Inr expire_at1, s1) \<Rightarrow>
            (case (case expire_at1 of
                     VDatetime d \<Rightarrow>
                       (case timestamp env (replace_microsecond d 0) of
                          Inl e \<Rightarrow> Inl (raised e)
                        | Inr x \<Rightarrow> Inr (VFloat x))
                   | _ \<Rightarrow> if \<not> isinstance_int_float expire_at1
                          then Inl (TypeError Expire_at_type) else Inr expire_at1) of
               Inl e \<Rightarrow> (Inl e, s1)
             | Inr expire_at2 \<Rightarrow>
                 (case py_int expire_at2 of
                    Inl e \<Rightarrow> (Inl e, s1)
                  | Inr n \<Rightarrow> (Inr (), setitem item ttl_attribute (VInt n) s1))))"

section \<open>The item operations\<close>

text \<open>
  \<^verbatim>\<open>data.copy() if isinstance(data, dict) else {"value": data}\<close>: the contents of the
  new dict.
\<close>

fun copy_or_wrap :: "arg \<Rightarrow> state \<Rightarrow> dict" where
  "copy_or_wrap (Ref a) s = heap s a"
| "copy_or_wrap (Val (VDict d)) s = d"
| "copy_or_wrap (Val v) s = [(''value'', v)]"

definition get :: "env \<Rightarrow> pyval \<Rightarrow> state \<Rightarrow> (error + pyval) \<times> state" where
  "get env key s =
     (if \<not> truthy key then (Inl (ValueError Key_must_be_non_empty), s)
      else case py_quote env key of
        Inl e \<Rightarrow> (Inl e, s)
      | Inr key1 \<Rightarrow>
          (case service_request env (''/items/'' @ key1) GET None None s of
             (Inl e, s1) \<Rightarrow> (Inl e, s1)
           | (Inr (_, res), s1) \<Rightarrow> (Inr res, s1)))"

definition delete :: "env \<Rightarrow> pyval \<Rightarrow> state \<Rightarrow> (error + pyval) \<times> state" where
  "delete env key s =
     (if \<not> truthy key then (Inl (ValueError Key_must_be_non_empty), s)
      else case py_quote env key of
        Inl e \<Rightarrow> (Inl e, s)
      | Inr key1 \<Rightarrow>
          (case service_request env (''/items/'' @ key1) DELETE None None s of
             (Inl e, s1) \<Rightarrow> (Inl e, s1)
           | (Inr _, s1) \<Rightarrow> (Inr VNone, s1)))"

definition insert_item :: "env \<Rightarrow> arg \<Rightarrow> pyval \<Rightarrow> pyval \<Rightarrow> pyval \<Rightarrow> state \<Rightarrow>
    (error + pyval) \<times> state" where
  "insert_item env data key expire_in expire_at s =
     (case new_dict (copy_or_wrap data s) s of (data1, s1) \<Rightarrow>
        let s2 = (if truthy key then setitem data1 ''key'' key s1 else s1)
        in (case insert_ttl env data1 BASE_TTL_ATTRIBUTE expire_in expire_at s2 of
              (Inl e, s3) \<Rightarrow> (Inl e, s3)
            | (Inr _, s3) \<Rightarrow>
                (case service_request env ''/items'' POST
                        (Some (VDict [(''item'', VDict (heap s3 data1))])) (Some JSON_MIME) s3 of
                   (Inl e, s4) \<Rightarrow> (Inl e, s4)
                 | (Inr (code, res), s4) \<Rightarrow>
                     if code = 201 then (Inr res, s4)
                     else if code = 409 then (Inl (ValueError (Item_already_exists key)), s4)
                     else (Inr VNone, s4))))"

text \<open>\<^verbatim>\<open>res["processed"]["items"][0]\<close>.\<close>

definition first_processed :: "pyval \<Rightarrow> error + pyval" where
  "first_processed res =
     (case getitem_str res ''processed'' of
        Inl e \<Rightarrow> Inl e
      | Inr processed \<Rightarrow>
          (case getitem_str processed ''items'' of
             Inl e \<Rightarrow> Inl e
           | Inr its \<Rightarrow> getitem_int its 0))"

definition put :: "env \<Rightarrow> arg \<Rightarrow> pyval \<Rightarrow> pyval \<Rightarrow> pyval \<Rightarrow> state \<Rightarrow>
    (error + pyval) \<times> state" where
  "put env data key expire_in expire_at s =
     (case new_dict (copy_or_wrap data s) s of (data1, s1) \<Rightarrow>
        let s2 = (if truthy key then setitem data1 ''key'' key s1 else s1)
        in (case insert_ttl env data1 BASE_TTL_ATTRIBUTE expire_in expire_at s2 of
              (Inl e, s3) \<Rightarrow> (Inl e, s3)
            | (Inr _, s3) \<Rightarrow>
                (case service_request env ''/items'' PUT
                        (Some (VDict [(''items'', VList [VDict (heap s3 data1)])]))
                        (Some JSON_MIME) s3 of
                   (Inl e, s4) \<Rightarrow> (Inl e, s4)
                 | (Inr (code, res), s4) \<Rightarrow>
                     if truthy res \<and> code = 207
                     then (case first_processed res of
                             Inl e \<Rightarrow> (Inl e, s4)
                           | Inr item \<Rightarrow> (Inr item, s4))
                     else (Inr VNone, s4))))"

text \<open>
  The loop of \<^verbatim>\<open>put_many\<close>: \<^verbatim>\<open>data\<close> is the item itself when the item is a dict
  (no copy is made), and a new dict \<^verbatim>\<open>{"value": item}\<close> otherwise; \<^verbatim>\<open>acc\<close> is
  \<^verbatim>\<open>_items\<close>, the addresses of the dicts collected so far.
\<close>

fun item_data :: "arg \<Rightarrow> state \<Rightarrow> addr \<times> state" where
  "item_data (Ref a) s = (a, s)"
| "item_data (Val (VDict d)) s = new_dict d s"
| "item_data (Val v) s = new_dict [(''value'', v)] s"

fun put_many_loop :: "env \<Rightarrow> arg list \<Rightarrow> pyval \<Rightarrow> pyval \<Rightarrow> addr list \<Rightarrow> state \<Rightarrow>
    (error + addr list) \<times> state" where
  "put_many_loop env [] expire_in expire_at acc s = (Inr acc, s)"
| "put_many_loop env (item # items) expire_in expire_at acc s =
     (case item_data item s of (data, s1) \<Rightarrow>
        (case insert_ttl env data BASE_TTL_ATTRIBUTE expire_in expire_at s1 of
           (Inl e, s2) \<Rightarrow> (Inl e, s2)
         | (Inr _, s2) \<Rightarrow> put_many_loop env items expire_in expire_at (acc @ [data]) s2))"

definition put_many :: "env \<Rightarrow> arg list \<Rightarrow> pyval \<Rightarrow> pyval \<Rightarrow> state \<Rightarrow>
    (error + pyval) \<times> state" where
  "put_many env items expire_in expire_at s =
     (if length items > 25 then (Inl (ValueError Too_many_items), s)
      else case put_many_loop env items expire_in expire_at [] s of
        (Inl e, s1) \<Rightarrow> (Inl e, s1)
      | (Inr items1, s1) \<Rightarrow>
          (case service_request env ''/items'' PUT
                  (Some (VDict [(''items'', VList (map (\<lambda>a. VDict (heap s1 a)) items1))]))
                  (Some JSON_MIME) s1 of
             (Inl e, s2) \<Rightarrow> (Inl e, s2)
           | (Inr (_, res), s2) \<Rightarrow> (Inr res, s2)))"

section \<open>Fetch\<close>

record FetchResponse =
  fr_count :: pyval
  fr_last :: pyval
  fr_items :: pyval

text \<open>\<^verbatim>\<open>FetchResponse.__init__\<close>: absent items become the empty list.\<close>

definition FetchResponse_init :: "pyval \<Rightarrow> pyval \<Rightarrow> pyval \<Rightarrow> FetchResponse" where
  "FetchResponse_init count1 last1 items =
     \<lparr>fr_count = count1, fr_last = last1,
      fr_items = (if items \<noteq> VNone then items else VList [])\<rparr>"

text \<open>The payload that \<^verbatim>\<open>fetch\<close> builds before the request.\<close>

definition fetch_payload :: "pyval \<Rightarrow> pyval \<Rightarrow> pyval \<Rightarrow> dict" where
  "fetch_payload query limit last1 =
     (let payload = [(''limit'', limit),
                     (''last'', if \<not> isinstance_bool last1 then last1 else VNone)]
      in if truthy query
         then dict_set payload ''query''
                (if isinstance_Sequence query then query else VList [query])
         else payload)"

definition fetch :: "env \<Rightarrow> pyval \<Rightarrow> pyval \<Rightarrow> pyval \<Rightarrow> state \<Rightarrow>
    (error + FetchResponse) \<times> state" where
  "fetch env query limit last1 s =
     (case service_request env ''/query'' POST
             (Some (VDict (fetch_payload query limit last1))) (Some JSON_MIME) s of
        (Inl e, s1) \<Rightarrow> (Inl e, s1)
      | (Inr (_, res), s1) \<Rightarrow>
          (case py_get res ''paging'' of
             Inl e \<Rightarrow> (Inl e, s1)
           | Inr paging \<Rightarrow>
               (case py_get paging ''size'' of
                  Inl e \<Rightarrow> (Inl e, s1)
                | Inr size1 \<Rightarrow>
                    (case py_get paging ''last'' of
                       Inl e \<Rightarrow> (Inl e, s1)
                     | Inr last2 \<Rightarrow>
                         (case py_get res ''items'' of
                            Inl e \<Rightarrow> (Inl e, s1)
                          | Inr items \<Rightarrow>
                              (Inr (FetchResponse_init size1 last2 items), s1))))))"

section \<open>Update\<close>


definition Increment :: "pyval \<Rightarrow> pyval" where
  "Increment v = VIncrement v"

definition Increment_default :: pyval where
  "Increment_default = Increment (VInt 1)"



text \<open>The payload of \<^verbatim>\<open>update\<close>, one field for each of its five keys.\<close>

record payload =
  p_set :: dict
  p_increment :: dict
  p_append :: dict
  p_prepend :: dict
  p_delete :: "string list"

definition empty_payload :: payload where
  "empty_payload =
     \<lparr>p_set = [], p_increment = [], p_append = [], p_prepend = [], p_delete = []\<rparr>"

text \<open>
  The body of the loop over \<^verbatim>\<open>updates.items()\<close>, and the loop. An equation for a
  marker is the \<^verbatim>\<open>isinstance\<close> test for its class, and \<^verbatim>\<open>x\<close> is the marker's
  \<^verbatim>\<open>value\<close> attribute; the tests come in the order of the source.
\<close>

fun classify :: "string \<Rightarrow> pyval \<Rightarrow> payload \<Rightarrow> payload" where
  "classify attr VTrim p = p\<lparr>p_delete := p_delete p @ [attr]\<rparr>"
| "classify attr (VIncrement x) p = p\<lparr>p_increment := dict_set (p_increment p) attr x\<rparr>"
| "classify attr (VAppend x) p = p\<lparr>p_append := dict_set (p_append p) attr x\<rparr>"
| "classify attr (VPrepend x) p = p\<lparr>p_prepend := dict_set (p_prepend p) attr x\<rparr>"
| "classify attr v p = p\<lparr>p_set := dict_set (p_set p) attr v\<rparr>"

fun classify_all :: "dict \<Rightarrow> payload \<Rightarrow> payload" where
  "classify_all [] p = p"
| "classify_all ((attr, v) # rest) p = classify_all rest (classify attr v p)"

text \<open>
  Lines 287 to 306 of \<^verbatim>\<open>update\<close>: the payload as it stands before the TTL is
  merged. A truthy \<^verbatim>\<open>updates\<close> that is no dict has no \<^verbatim>\<open>items\<close> method.
\<close>

definition update_payload :: "pyval \<Rightarrow> error + payload" where
  "update_payload updates =
     (if truthy updates
      then (case updates of
              VDict kvs \<Rightarrow> Inr (classify_all kvs empty_payload)
            | _ \<Rightarrow> Inl AttributeError)
      else Inr empty_payload)"



definition payload_body :: "payload \<Rightarrow> pyval" where
  "payload_body p =
     VDict [(''set'', VDict (p_set p)), (''increment'', VDict (p_increment p)),
            (''append'', VDict (p_append p)), (''prepend'', VDict (p_prepend p)),
            (''delete'', VList (map VStr (p_delete p)))]"

text \<open>
  \<^verbatim>\<open>update\<close>. The dict under \<^verbatim>\<open>"set"\<close> is the one \<^verbatim>\<open>insert_ttl\<close> writes to, so
  it is an object in the store.
\<close>

definition update :: "env \<Rightarrow> pyval \<Rightarrow> pyval \<Rightarrow> pyval \<Rightarrow> pyval \<Rightarrow> state \<Rightarrow>
    (error + pyval) \<times> state" where
  "update env updates key expire_in expire_at s =
     (if \<not> truthy key then (Inl (ValueError Key_must_be_non_empty), s)
      else case update_payload updates of
        Inl e \<Rightarrow> (Inl e, s)
      | Inr p \<Rightarrow>
          (case new_dict (p_set p) s of (set1, s1) \<Rightarrow>
             (case insert_ttl env set1 BASE_TTL_ATTRIBUTE expire_in expire_at s1 of
                (Inl e, s2) \<Rightarrow> (Inl e, s2)
              | (Inr _, s2) \<Rightarrow>
                  (case py_quote env key of
                     Inl e \<Rightarrow> (Inl e, s2)
                   | Inr encoded_key \<Rightarrow>
                       (case service_request env (''/items/'' @ encoded_key) PATCH
                               (Some (payload_body (p\<lparr>p_set := heap s2 set1\<rparr>)))
                               (Some JSON_MIME) s2 of
                          (Inl e, s3) \<Rightarrow> (Inl e, s3)
                        | (Inr (code, _), s3) \<Rightarrow>
                            if code = 404 then (Inl (ValueError (Key_not_found key)), s3)
                            else (Inr VNone, s3))))))"

section \<open>Example collaborators\<close>

text \<open>
  A transport that answers every request with one status code and body, a clock that
  advances one second per reading from second 1000 (at half a second past), an
  \<^verbatim>\<open>add_seconds\<close> for whole seconds, a \<^verbatim>\<open>timestamp\<close> that returns the instant of
  a datetime from year 1 to year 9999 and raises ValueError outside, and a \<^verbatim>\<open>quote\<close>
  for keys of unreserved characters; and a state with an empty store and no request made.
\<close>

definition answering :: "int \<Rightarrow> pyval \<Rightarrow> env" where
  "answering code res =
     \<lparr>transport = (\<lambda>history r. Inr (code, res)),
      clock = (\<lambda>n. \<lparr>epoch_second = 1000 + int n, microsecond = 500000\<rparr>),
      add_seconds = (\<lambda>d x. case x of
                        VInt n \<Rightarrow> Inr (d\<lparr>epoch_second := epoch_second d + n\<rparr>)
                      | _ \<Rightarrow> Inl Lib_TypeError),
      timestamp = (\<lambda>d. if - 62135596800 \<le> epoch_second d \<and> epoch_second d < 253402300800
                       then Inr (Fin (instant d)) else Inl Lib_ValueError),
      quote = (\<lambda>k. k)\<rparr>"

definition initial_state :: state where
  "initial_state = \<lparr>heap = (\<lambda>a. []), next_addr = 0, requests = [], ticks = 0\<rparr>"

text \<open>A state in which the caller owns one dict, \<^verbatim>\<open>{"a": 1}\<close>, at address 0.\<close>

definition caller_state :: state where
  "caller_state =
     \<lparr>heap = (\<lambda>a. if a = 0 then [(''a'', VInt 1)] else []), next_addr = 1,
      requests = [], ticks = 0\<rparr>"

section \<open>Outcomes\<close>

text \<open>
  An operation started in state \<^verbatim>\<open>s\<close> fails locally with \<^verbatim>\<open>e\<close>: it raises
  \<^verbatim>\<open>e\<close>, it has handed no request to the transport, and every dict that existed
  when it started is as it was.
\<close>

definition fails_unsent :: "error \<Rightarrow> state \<Rightarrow> (error + 'a) \<times> state \<Rightarrow> bool" where
  "fails_unsent e s r =
     (fst r = Inl e \<and> requests (snd r) = requests s \<and>
      (\<forall>a < next_addr s. heap (snd r) a = heap s a))"

text \<open>
  A multi-status body in which the one item of the batch is reported as failed and none
  as processed.
\<close>

definition nothing_processed :: pyval where
  "nothing_processed =
     VDict [(''processed'', VDict [(''items'', VList [])]),
            (''failed'', VDict [(''items'', VList [VDict [(''key'', VStr ''k''), (''a'', VInt 1)]])])]"

section \<open>The state under the basic steps\<close>

lemma requests_new_dict: "requests (snd (new_dict d s)) = requests s"
  by (simp add: new_dict_def)

lemma requests_setitem: "requests (setitem a k v s) = requests s"
  by (simp add: setitem_def)

lemma next_addr_setitem: "next_addr (setitem a k v s) = next_addr s"
  by (simp add: setitem_def)

lemma heap_setitem: "heap (setitem a k v s) = (heap s)(a := dict_set (heap s a) k v)"
  by (simp add: setitem_def)

text \<open>
  What \<^verbatim>\<open>insert_ttl\<close> can do to the state: read the clock once, and write one key of
  the item, the latter only when it returns.
\<close>

lemma insert_ttl_cases:
  "insert_ttl env item attr expire_in expire_at s = (r, s') \<Longrightarrow>
     (s' = s \<or> s' = s\<lparr>ticks := Suc (ticks s)\<rparr>) \<and> (\<exists>e. r = Inl e) \<or>
     r = Inr () \<and> s' = s \<and> \<not> truthy expire_in \<and> \<not> truthy expire_at \<or>
     r = Inr () \<and> (truthy expire_in \<or> truthy expire_at) \<and>
       (\<exists>t. s' = setitem item attr (VInt t) s \<or>
            s' = setitem item attr (VInt t) (s\<lparr>ticks := Suc (ticks s)\<rparr>))"
  by (auto simp: insert_ttl_def now_def split: if_splits sum.splits prod.splits pyval.splits)

lemma insert_ttl_frame:
  assumes "insert_ttl env item attr expire_in expire_at s = (r, s')"
  shows "requests s' = requests s" and "next_addr s' = next_addr s"
    and "b \<noteq> item \<Longrightarrow> heap s' b = heap s b"
  using insert_ttl_cases [OF assms] by (auto simp: setitem_def)

lemma insert_ttl_written:
  assumes "insert_ttl env item attr expire_in expire_at s = (Inr u, s')"
    and "truthy expire_in \<or> truthy expire_at"
  shows "\<exists>t. heap s' = (heap s)(item := dict_set (heap s item) attr (VInt t))"
  using insert_ttl_cases [OF assms(1)] assms(2) by (auto simp: setitem_def)

section \<open>Validation before any request\<close>

text \<open>
  Claim C5. A call of \<^verbatim>\<open>put_many\<close> with more than 25 items raises the ValueError
  "cannot put more than 25 items at a time" and leaves the whole state as it was: no
  request has been handed to the transport, and no dict has been written.
\<close>

theorem put_many_over_25:
  "length items > 25 \<Longrightarrow>
     put_many env items expire_in expire_at s = (Inl (ValueError Too_many_items), s) \<and>
     requests (snd (put_many env items expire_in expire_at s)) = requests s"
  by (simp add: put_many_def)

theorem put_many_over_25_witness:
  "length (replicate 26 (Val VNone)) > 25 \<and>
   put_many (answering 207 VNone) (replicate 26 (Val VNone)) VNone VNone initial_state
     = (Inl (ValueError Too_many_items), initial_state) \<and>
   requests (snd (put_many (answering 207 VNone) (replicate 26 (Val VNone)) VNone VNone
     initial_state)) = requests initial_state"
  using put_many_over_25 [of "replicate 26 (Val VNone)" "answering 207 VNone" VNone VNone
      initial_state]
  by simp

text \<open>
  Claim C6. With a key that is empty (or falsy in any other way), \<^verbatim>\<open>get\<close>,
  \<^verbatim>\<open>delete\<close> and \<^verbatim>\<open>update\<close> raise the ValueError "parameter 'key' must be a
  non-empty string" and leave the whole state as it was, so the transport has not been
  called.
\<close>

theorem empty_key_rejected:
  "\<not> truthy key \<Longrightarrow>
     get env key s = (Inl (ValueError Key_must_be_non_empty), s) \<and>
     delete env key s = (Inl (ValueError Key_must_be_non_empty), s) \<and>
     update env updates key expire_in expire_at s
       = (Inl (ValueError Key_must_be_non_empty), s) \<and>
     requests (snd (get env key s)) = requests s \<and>
     requests (snd (delete env key s)) = requests s \<and>
     requests (snd (update env updates key expire_in expire_at s)) = requests s"
  by (simp add: get_def delete_def update_def)

theorem empty_key_rejected_witness:
  "\<not> truthy (VStr []) \<and>
   get (answering 200 VNone) (VStr []) initial_state
     = (Inl (ValueError Key_must_be_non_empty), initial_state) \<and>
   delete (answering 200 VNone) (VStr []) initial_state
     = (Inl (ValueError Key_must_be_non_empty), initial_state) \<and>
   update (answering 200 VNone) (VDict [(''a'', VInt 1)]) (VStr []) VNone VNone initial_state
     = (Inl (ValueError Key_must_be_non_empty), initial_state)"
  using empty_key_rejected [of "VStr []" "answering 200 VNone" initial_state
      "VDict [(''a'', VInt 1)]" VNone VNone]
  by simp

section \<open>The TTL normalizer: mutually exclusive parameters\<close>

lemma insert_ttl_both:
  "truthy expire_in \<Longrightarrow> truthy expire_at \<Longrightarrow>
     insert_ttl env item attr expire_in expire_at s = (Inl (ValueError Mutually_exclusive), s)"
  by (simp add: insert_ttl_def)

lemma item_data_frame:
  assumes "item_data item s = (a, s1)"
  shows "requests s1 = requests s" and "next_addr s \<le> next_addr s1"
    and "b < next_addr s \<Longrightarrow> heap s1 b = heap s b"
  using assms by (auto simp: new_dict_def elim!: item_data.elims)

lemma insert_item_both:
  assumes "truthy expire_in" and "truthy expire_at"
  shows "fails_unsent (ValueError Mutually_exclusive) s
           (insert_item env data key expire_in expire_at s)"
  using assms
  by (simp add: fails_unsent_def insert_item_def insert_ttl_both new_dict_def setitem_def)

lemma put_both:
  assumes "truthy expire_in" and "truthy expire_at"
  shows "fails_unsent (ValueError Mutually_exclusive) s
           (put env data key expire_in expire_at s)"
  using assms
  by (simp add: fails_unsent_def put_def insert_ttl_both new_dict_def setitem_def)

text \<open>The first pass through the loop of \<^verbatim>\<open>put_many\<close> already raises.\<close>

lemma put_many_both:
  assumes "truthy expire_in" and "truthy expire_at" and "items \<noteq> []" and "length items \<le> 25"
  shows "fails_unsent (ValueError Mutually_exclusive) s
           (put_many env items expire_in expire_at s)"
proof -
  from assms(3) obtain item rest where items: "items = item # rest"
    by (cases items) auto
  obtain a s1 where d: "item_data item s = (a, s1)"
    by (cases "item_data item s")
  have "put_many env items expire_in expire_at s = (Inl (ValueError Mutually_exclusive), s1)"
    using assms(1,2,4) by (simp add: put_many_def items d insert_ttl_both)
  then show ?thesis
    using item_data_frame [OF d] by (simp add: fails_unsent_def)
qed

lemma update_both:
  assumes "truthy expire_in" and "truthy expire_at" and "truthy key"
    and "update_payload updates = Inr p"
  shows "fails_unsent (ValueError Mutually_exclusive) s
           (update env updates key expire_in expire_at s)"
  using assms
  by (simp add: fails_unsent_def update_def insert_ttl_both new_dict_def)

text \<open>
  Claim C2. When \<^verbatim>\<open>expire_in\<close> and \<^verbatim>\<open>expire_at\<close> are both truthy,
  \<^verbatim>\<open>insert_ttl\<close> raises the ValueError "'expire_in' and 'expire_at' are mutually
  exclusive parameters" and leaves the whole state as it was, the mapping it was given
  included. Each operation that calls it then fails with that error before any request:
  \<^verbatim>\<open>insert\<close> and \<^verbatim>\<open>put\<close> always, \<^verbatim>\<open>put_many\<close> when it has a first item to
  normalize (1 to 25 items), \<^verbatim>\<open>update\<close> when the key is truthy and the updates
  are a mapping (so that the call reaches the normalizer). No request is handed to the
  transport and no dict of the caller is changed.
\<close>

theorem both_ttl_rejected:
  assumes "truthy expire_in" and "truthy expire_at"
  shows "insert_ttl env item attr expire_in expire_at s
           = (Inl (ValueError Mutually_exclusive), s) \<and>
         fails_unsent (ValueError Mutually_exclusive) s
           (insert_item env data key expire_in expire_at s) \<and>
         fails_unsent (ValueError Mutually_exclusive) s
           (put env data key expire_in expire_at s) \<and>
         (items \<noteq> [] \<and> length items \<le> 25 \<longrightarrow>
            fails_unsent (ValueError Mutually_exclusive) s
              (put_many env items expire_in expire_at s)) \<and>
         (truthy key \<and> update_payload updates = Inr p \<longrightarrow>
            fails_unsent (ValueError Mutually_exclusive) s
              (update env updates key expire_in expire_at s))"
  using assms
  by (simp add: insert_ttl_both insert_item_both put_both put_many_both update_both)

theorem both_ttl_rejected_witness:
  "truthy (VInt 60) \<and> truthy (VInt 1700000000) \<and>
   insert_ttl (answering 201 VNone) 0 BASE_TTL_ATTRIBUTE (VInt 60) (VInt 1700000000) caller_state
     = (Inl (ValueError Mutually_exclusive), caller_state) \<and>
   fst (insert_item (answering 201 VNone) (Ref 0) (VStr ''k'') (VInt 60) (VInt 1700000000)
     caller_state) = Inl (ValueError Mutually_exclusive) \<and>
   requests (snd (put_many (answering 207 VNone) [Ref 0] (VInt 60) (VInt 1700000000)
     caller_state)) = [] \<and>
   heap (snd (put_many (answering 207 VNone) [Ref 0] (VInt 60) (VInt 1700000000)
     caller_state)) 0 = [(''a'', VInt 1)] \<and>
   fst (update (answering 200 VNone) (VDict [(''a'', VInt 2)]) (VStr ''k'') (VInt 60)
     (VInt 1700000000) caller_state) = Inl (ValueError Mutually_exclusive)"
  using both_ttl_rejected [of "VInt 60" "VInt 1700000000" "answering 201 VNone" 0
      BASE_TTL_ATTRIBUTE caller_state "Ref 0" "VStr ''k''" "[Ref 0]" "VDict [(''a'', VInt 2)]"
      "classify_all [(''a'', VInt 2)] empty_payload"]
    both_ttl_rejected [of "VInt 60" "VInt 1700000000" "answering 207 VNone" 0
      BASE_TTL_ATTRIBUTE caller_state "Ref 0" "VStr ''k''" "[Ref 0]" "VDict [(''a'', VInt 2)]"
      "classify_all [(''a'', VInt 2)] empty_payload"]
    both_ttl_rejected [of "VInt 60" "VInt 1700000000" "answering 200 VNone" 0
      BASE_TTL_ATTRIBUTE caller_state "Ref 0" "VStr ''k''" "[Ref 0]" "VDict [(''a'', VInt 2)]"
      "classify_all [(''a'', VInt 2)] empty_payload"]
  by (simp add: fails_unsent_def update_payload_def caller_state_def)

section \<open>The TTL normalizer: datetimes\<close>

lemma map_of_dict_set:
  "map_of (dict_set d k v) k' = (if k' = k then Some v else map_of d k')"
  by (induction d) auto

text \<open>
  The datetime branch of \<^verbatim>\<open>insert_ttl\<close>, by what the library call and \<^verbatim>\<open>int\<close> do.
\<close>

lemma insert_ttl_datetime:
  assumes "\<not> truthy expire_in"
  shows "insert_ttl env item attr expire_in (VDatetime d) s =
     (case timestamp env (replace_microsecond d 0) of
        Inl e \<Rightarrow> (Inl (raised e), s)
      | Inr x \<Rightarrow>
          (case py_int (VFloat x) of
             Inl e \<Rightarrow> (Inl e, s)
           | Inr n \<Rightarrow> (Inr (), setitem item attr (VInt n) s)))"
  using assms by (simp add: insert_ttl_def split: sum.splits)




section \<open>The TTL normalizer: falsy parameters\<close>

lemma py_int_not_exclusive: "py_int v \<noteq> Inl (ValueError Mutually_exclusive)"
  by (cases v rule: py_int.cases) simp_all

lemma raised_not_exclusive: "raised e \<noteq> ValueError Mutually_exclusive"
  by (cases e) simp_all

lemma insert_ttl_not_exclusive:
  "\<not> truthy x \<or> \<not> truthy y \<Longrightarrow>
     fst (insert_ttl env item attr x y s) \<noteq> Inl (ValueError Mutually_exclusive)"
  by (cases "add_seconds env (clock env (ticks s)) x")
     (auto simp: insert_ttl_def now_def py_int_not_exclusive raised_not_exclusive
        split: if_splits sum.splits prod.splits pyval.splits)

text \<open>
  The \<^verbatim>\<open>expire_in\<close> branch of \<^verbatim>\<open>insert_ttl\<close>: one clock reading, the library's
  addition and timestamp, and \<^verbatim>\<open>int\<close>.
\<close>

lemma insert_ttl_expire_in:
  assumes "truthy expire_in" and "\<not> truthy expire_at"
  shows "insert_ttl env item attr expire_in expire_at s =
     (case add_seconds env (clock env (ticks s)) expire_in of
        Inl e \<Rightarrow> (Inl (raised e), s\<lparr>ticks := Suc (ticks s)\<rparr>)
      | Inr d \<Rightarrow>
          (case timestamp env (replace_microsecond d 0) of
             Inl e \<Rightarrow> (Inl (raised e), s\<lparr>ticks := Suc (ticks s)\<rparr>)
           | Inr x \<Rightarrow>
               (case py_int (VFloat x) of
                  Inl e \<Rightarrow> (Inl e, s\<lparr>ticks := Suc (ticks s)\<rparr>)
                | Inr n \<Rightarrow>
                    (Inr (), setitem item attr (VInt n) (s\<lparr>ticks := Suc (ticks s)\<rparr>)))))"
  using assms by (simp add: insert_ttl_def now_def split: sum.splits)

text \<open>
  Claim C10. \<^verbatim>\<open>insert_ttl\<close> tests its parameters by truthiness. A falsy value
  \<^verbatim>\<open>z\<close>, such as 0, in the place of \<^verbatim>\<open>expire_in\<close> or of \<^verbatim>\<open>expire_at\<close> gives
  exactly the result and state that \<^verbatim>\<open>None\<close> gives there, whatever the other
  parameter is. With nothing else supplied the call returns and writes nothing. Beside a
  falsy value the mutual-exclusion error is never raised, and the truthy parameter is the
  one used: a number \<^verbatim>\<open>expire_at\<close> beside a falsy \<^verbatim>\<open>expire_in\<close> is written as
  \<^verbatim>\<open>int(expire_at)\<close>, a datetime \<^verbatim>\<open>expire_at\<close> as the integer of its timestamp without
  microseconds, and a truthy \<^verbatim>\<open>expire_in\<close> beside a falsy \<^verbatim>\<open>expire_at\<close> as the integer
  of the timestamp of the clock reading plus \<^verbatim>\<open>expire_in\<close> seconds.
\<close>

theorem falsy_ttl_is_absent:
  assumes "\<not> truthy z"
  shows "insert_ttl env item attr z expire_at s = insert_ttl env item attr VNone expire_at s \<and>
         insert_ttl env item attr expire_in z s = insert_ttl env item attr expire_in VNone s \<and>
         insert_ttl env item attr z VNone s = (Inr (), s) \<and>
         insert_ttl env item attr VNone z s = (Inr (), s) \<and>
         fst (insert_ttl env item attr z expire_at s) \<noteq> Inl (ValueError Mutually_exclusive) \<and>
         fst (insert_ttl env item attr expire_in z s) \<noteq> Inl (ValueError Mutually_exclusive) \<and>
         (n \<noteq> 0 \<longrightarrow> insert_ttl env item attr z (VInt n) s
            = (Inr (), setitem item attr (VInt n) s)) \<and>
         (truthy expire_at \<and> isinstance_int_float expire_at \<and> py_int expire_at = Inr k \<longrightarrow>
            insert_ttl env item attr z expire_at s
              = (Inr (), setitem item attr (VInt k) s)) \<and>
         (timestamp env (replace_microsecond d 0) = Inr x \<and> py_int (VFloat x) = Inr k \<longrightarrow>
            insert_ttl env item attr z (VDatetime d) s
              = (Inr (), setitem item attr (VInt k) s)) \<and>
         (truthy expire_in \<and> add_seconds env (clock env (ticks s)) expire_in = Inr d \<and>
            timestamp env (replace_microsecond d 0) = Inr x \<and> py_int (VFloat x) = Inr k \<longrightarrow>
            insert_ttl env item attr expire_in z s
              = (Inr (), setitem item attr (VInt k) (s\<lparr>ticks := Suc (ticks s)\<rparr>)))"
proof -
  have a: "insert_ttl env item attr z expire_at s = insert_ttl env item attr VNone expire_at s"
    using assms by (simp add: insert_ttl_def)
  have b: "insert_ttl env item attr expire_in z s = insert_ttl env item attr expire_in VNone s"
    using assms by (cases "truthy expire_in") (simp_all add: insert_ttl_def)
  have c: "insert_ttl env item attr z VNone s = (Inr (), s)"
    and d: "insert_ttl env item attr VNone z s = (Inr (), s)"
    using assms by (simp_all add: insert_ttl_def)
  have e: "fst (insert_ttl env item attr u w s) \<noteq> Inl (ValueError Mutually_exclusive)"
    if "\<not> truthy u \<or> \<not> truthy w" for u w
    using that by (simp add: insert_ttl_not_exclusive)
  have f: "n \<noteq> 0 \<longrightarrow> insert_ttl env item attr z (VInt n) s
      = (Inr (), setitem item attr (VInt n) s)"
    using assms by (simp add: insert_ttl_def)
  have g: "insert_ttl env item attr z expire_at s = (Inr (), setitem item attr (VInt k) s)"
    if "truthy expire_at" and "isinstance_int_float expire_at" and "py_int expire_at = Inr k"
    using that assms by (cases expire_at) (simp_all add: insert_ttl_def)
  have h: "insert_ttl env item attr z (VDatetime d) s = (Inr (), setitem item attr (VInt k) s)"
    if "timestamp env (replace_microsecond d 0) = Inr x" and "py_int (VFloat x) = Inr k"
    using that by (simp add: insert_ttl_datetime [OF assms])
  have i: "insert_ttl env item attr expire_in z s
      = (Inr (), setitem item attr (VInt k) (s\<lparr>ticks := Suc (ticks s)\<rparr>))"
    if "truthy expire_in" and "add_seconds env (clock env (ticks s)) expire_in = Inr d"
      and "timestamp env (replace_microsecond d 0) = Inr x" and "py_int (VFloat x) = Inr k"
    using that by (simp add: insert_ttl_expire_in [OF that(1) assms])
  from a b c d e [of z expire_at] e [of expire_in z] f g h i assms show ?thesis
    by blast
qed

text \<open>
  With 0 for one parameter: an \<^verbatim>\<open>expire_at\<close> of 1700000000 is written as it is; 0 for
  both writes nothing; an \<^verbatim>\<open>expire_in\<close> of 60 at the first clock reading, second 1000
  and a half, writes 1060 and has read the clock once.
\<close>

theorem falsy_ttl_is_absent_witness:
  "\<not> truthy (VInt 0) \<and>
   insert_ttl (answering 200 VNone) 0 BASE_TTL_ATTRIBUTE (VInt 0) (VInt 1700000000) caller_state
     = (Inr (), setitem 0 BASE_TTL_ATTRIBUTE (VInt 1700000000) caller_state) \<and>
   insert_ttl (answering 200 VNone) 0 BASE_TTL_ATTRIBUTE (VInt 0) (VInt 0) caller_state
     = (Inr (), caller_state) \<and>
   insert_ttl (answering 200 VNone) 0 BASE_TTL_ATTRIBUTE (VInt 60) (VInt 0) caller_state
     = insert_ttl (answering 200 VNone) 0 BASE_TTL_ATTRIBUTE (VInt 60) VNone caller_state \<and>
   insert_ttl (answering 200 VNone) 0 BASE_TTL_ATTRIBUTE (VInt 60) (VInt 0) caller_state
     = (Inr (), setitem 0 BASE_TTL_ATTRIBUTE (VInt 1060) (caller_state\<lparr>ticks := 1\<rparr>)) \<and>
   map_of (heap (snd (insert_ttl (answering 200 VNone) 0 BASE_TTL_ATTRIBUTE (VInt 60) (VInt 0)
       caller_state)) 0) BASE_TTL_ATTRIBUTE = Some (VInt 1060)"
proof -
  let ?E = "answering 200 VNone"
  let ?d = "\<lparr>epoch_second = 1060, microsecond = 500000\<rparr>"
  have z: "\<not> truthy (VInt 0)" by simp
  note inst1 = falsy_ttl_is_absent [OF z, where env = ?E and item = 0
      and attr = BASE_TTL_ATTRIBUTE and expire_at = "VInt 1700000000" and s = caller_state
      and expire_in = "VInt 60" and n = 1700000000 and k = 1060 and d = ?d
      and x = "Fin 1060"]
  note inst2 = falsy_ttl_is_absent [OF z, where env = ?E and item = 0
      and attr = BASE_TTL_ATTRIBUTE and expire_at = "VInt 0" and s = caller_state
      and expire_in = "VInt 60" and n = 1700000000 and k = 1060 and d = ?d
      and x = "Fin 1060"]
  have lib: "truthy (VInt 60)"
    "add_seconds ?E (clock ?E (ticks caller_state)) (VInt 60) = Inr ?d"
    "timestamp ?E (replace_microsecond ?d 0) = Inr (Fin 1060)"
    "py_int (VFloat (Fin 1060)) = Inr 1060"
    by (simp_all add: answering_def caller_state_def replace_microsecond_def instant_def)
  have nz: "(1700000000::int) \<noteq> 0" by simp
  from inst1 nz have w1: "insert_ttl ?E 0 BASE_TTL_ATTRIBUTE (VInt 0) (VInt 1700000000) caller_state
      = (Inr (), setitem 0 BASE_TTL_ATTRIBUTE (VInt 1700000000) caller_state)"
    by blast
  from inst2 have w2: "insert_ttl ?E 0 BASE_TTL_ATTRIBUTE (VInt 0) (VInt 0) caller_state
      = (Inr (), caller_state)"
    by simp
  from inst1 have w3: "insert_ttl ?E 0 BASE_TTL_ATTRIBUTE (VInt 60) (VInt 0) caller_state
      = insert_ttl ?E 0 BASE_TTL_ATTRIBUTE (VInt 60) VNone caller_state"
    by blast
  from inst1 lib have w4: "insert_ttl ?E 0 BASE_TTL_ATTRIBUTE (VInt 60) (VInt 0) caller_state
      = (Inr (), setitem 0 BASE_TTL_ATTRIBUTE (VInt 1060)
           (caller_state\<lparr>ticks := Suc (ticks caller_state)\<rparr>))"
    by blast
  have t: "caller_state\<lparr>ticks := Suc (ticks caller_state)\<rparr> = caller_state\<lparr>ticks := 1\<rparr>"
    by (simp add: caller_state_def)
  from w4 have w4': "insert_ttl ?E 0 BASE_TTL_ATTRIBUTE (VInt 60) (VInt 0) caller_state
      = (Inr (), setitem 0 BASE_TTL_ATTRIBUTE (VInt 1060) (caller_state\<lparr>ticks := 1\<rparr>))"
    unfolding t .
  have w5: "map_of (heap (snd (insert_ttl ?E 0 BASE_TTL_ATTRIBUTE (VInt 60) (VInt 0)
      caller_state)) 0) BASE_TTL_ATTRIBUTE = Some (VInt 1060)"
    unfolding w4' by (simp add: heap_setitem map_of_dict_set)
  from z w1 w2 w3 w4' w5 show ?thesis by blast
qed

section \<open>Requests and responses\<close>

lemma service_request_eq:
  "service_request env p m b c s =
     (transport env (requests s) \<lparr>path = p, verb = m, body = b, content_type = c\<rparr>,
      s\<lparr>requests := requests s @ [\<lparr>path = p, verb = m, body = b, content_type = c\<rparr>]\<rparr>)"
  by (simp add: service_request_def Let_def)


text \<open>
  Claim C7. The payload of \<^verbatim>\<open>fetch\<close> always holds \<^verbatim>\<open>limit\<close> and \<^verbatim>\<open>last\<close>, in
  that order; \<^verbatim>\<open>last\<close> is the cursor given, and \<^verbatim>\<open>None\<close> for a boolean. A truthy
  query is added under \<^verbatim>\<open>query\<close>: as it is when it is a sequence (a list of
  filters), wrapped into a one-element list otherwise (a single filter mapping). With no
  filter given (\<^verbatim>\<open>None\<close>, or an empty mapping or list) the payload has no
  \<^verbatim>\<open>query\<close> key. That payload is the body of the one request \<^verbatim>\<open>fetch\<close> makes.
\<close>

theorem fetch_request_payload:
  "fetch_payload query limit last1
     = [(''limit'', limit), (''last'', if isinstance_bool last1 then VNone else last1)] @
       (if truthy query
        then [(''query'', if isinstance_Sequence query then query else VList [query])]
        else []) \<and>
   requests (snd (fetch env query limit last1 s))
     = requests s @ [\<lparr>path = ''/query'', verb = POST,
                      body = Some (VDict (fetch_payload query limit last1)),
                      content_type = Some JSON_MIME\<rparr>] \<and>
   map_of (fetch_payload query limit last1) ''limit'' = Some limit \<and>
   map_of (fetch_payload query limit (VBool b)) ''last'' = Some VNone \<and>
   (\<not> isinstance_bool last1 \<longrightarrow>
      map_of (fetch_payload query limit last1) ''last'' = Some last1) \<and>
   (d \<noteq> [] \<longrightarrow>
      map_of (fetch_payload (VDict d) limit last1) ''query'' = Some (VList [VDict d])) \<and>
   (qs \<noteq> [] \<longrightarrow>
      map_of (fetch_payload (VList qs) limit last1) ''query'' = Some (VList qs)) \<and>
   (\<not> truthy query \<longrightarrow> ''query'' \<notin> fst ` set (fetch_payload query limit last1))"
proof -
  have req: "requests (snd (fetch env query limit last1 s))
     = requests s @ [\<lparr>path = ''/query'', verb = POST,
                      body = Some (VDict (fetch_payload query limit last1)),
                      content_type = Some JSON_MIME\<rparr>]"
    by (simp add: fetch_def service_request_eq split: sum.splits prod.splits)
  show ?thesis
    unfolding req by (simp add: fetch_payload_def)
qed

theorem fetch_request_payload_witness:
  "requests (snd (fetch (answering 200 (VDict [(''paging'', VDict [(''size'', VInt 0)])]))
       (VDict [(''age?gt'', VInt 10)]) (VInt 1000) (VBool True) initial_state))
     = [\<lparr>path = ''/query'', verb = POST,
         body = Some (VDict [(''limit'', VInt 1000), (''last'', VNone),
                             (''query'', VList [VDict [(''age?gt'', VInt 10)]])]),
         content_type = Some JSON_MIME\<rparr>] \<and>
   fetch_payload VNone (VInt 1000) (VStr ''cursor'')
     = [(''limit'', VInt 1000), (''last'', VStr ''cursor'')]"
  using fetch_request_payload [of "VDict [(''age?gt'', VInt 10)]" "VInt 1000" "VBool True"
      "answering 200 (VDict [(''paging'', VDict [(''size'', VInt 0)])])" initial_state]
    fetch_request_payload [of VNone "VInt 1000" "VStr ''cursor''"]
  by (simp add: initial_state_def)




lemma first_processed_found:
  "map_of d ''processed'' = Some (VDict p) \<Longrightarrow> map_of p ''items'' = Some (VList (x # xs)) \<Longrightarrow>
     first_processed (VDict d) = Inr x"
  by (simp add: first_processed_def index_list_def)

text \<open>
  Claim C4, as the code has it. When \<^verbatim>\<open>put\<close> has made its request and the transport
  answers it with a status code and a body: with status 207 and a truthy body whose
  \<^verbatim>\<open>["processed"]["items"][0]\<close> exists, \<^verbatim>\<open>put\<close> returns that first processed item;
  with a falsy body (none, or empty) or a status other than 207, \<^verbatim>\<open>put\<close> returns
  \<^verbatim>\<open>None\<close> and raises nothing.
\<close>

theorem put_result:
  assumes sent: "requests (snd (put env data key expire_in expire_at s)) = requests s @ [req]"
    and ans: "transport env (requests s) req = Inr (code, res)"
  shows "(code = 207 \<and> truthy res \<and> first_processed res = Inr item \<longrightarrow>
            fst (put env data key expire_in expire_at s) = Inr item) \<and>
         (code = 207 \<and> res = VDict d \<and> map_of d ''processed'' = Some (VDict p) \<and>
            map_of p ''items'' = Some (VList (x # xs)) \<longrightarrow>
            fst (put env data key expire_in expire_at s) = Inr x) \<and>
         (\<not> truthy res \<or> code \<noteq> 207 \<longrightarrow>
            fst (put env data key expire_in expire_at s) = Inr VNone)"
proof -
  define a where "a = next_addr s"
  define s1 where "s1 = snd (new_dict (copy_or_wrap data s) s)"
  define s2 where "s2 = (if truthy key then setitem a ''key'' key s1 else s1)"
  obtain r s3 where ttl: "insert_ttl env a BASE_TTL_ATTRIBUTE expire_in expire_at s2 = (r, s3)"
    by (cases "insert_ttl env a BASE_TTL_ATTRIBUTE expire_in expire_at s2")
  have nd: "new_dict (copy_or_wrap data s) s = (a, s1)"
    by (simp add: a_def s1_def new_dict_def)
  have r3: "requests s3 = requests s"
    using insert_ttl_frame(1) [OF ttl]
    by (simp add: s2_def s1_def requests_setitem requests_new_dict)
  let ?r = "\<lparr>path = ''/items'', verb = PUT,
             body = Some (VDict [(''items'', VList [VDict (heap s3 a)])]),
             content_type = Some JSON_MIME\<rparr>"
  show ?thesis
  proof (cases r)
    case (Inl e)
    then have "put env data key expire_in expire_at s = (Inl e, s3)"
      using ttl by (simp add: put_def nd Let_def s2_def)
    with sent r3 show ?thesis by simp
  next
    case (Inr u)
    have step: "put env data key expire_in expire_at s =
        (case service_request env ''/items'' PUT (body ?r) (Some JSON_MIME) s3 of
           (Inl e, s4) \<Rightarrow> (Inl e, s4)
         | (Inr (code, res), s4) \<Rightarrow>
             if truthy res \<and> code = 207
             then (case first_processed res of
                     Inl e \<Rightarrow> (Inl e, s4)
                   | Inr item \<Rightarrow> (Inr item, s4))
             else (Inr VNone, s4))"
      using ttl Inr by (simp add: put_def nd Let_def s2_def)
    then have "requests (snd (put env data key expire_in expire_at s)) = requests s3 @ [?r]"
      by (simp add: service_request_eq split: sum.splits prod.splits)
    with sent r3 have req: "req = ?r" by simp
    with ans r3 have "transport env (requests s3) ?r = Inr (code, res)" by simp
    with step have out: "fst (put env data key expire_in expire_at s) =
        (if truthy res \<and> code = 207
         then (case first_processed res of Inl e \<Rightarrow> Inl e | Inr item \<Rightarrow> Inr item)
         else Inr VNone)"
      by (simp add: service_request_eq split: sum.splits)
    have "d \<noteq> []" if "map_of d ''processed'' = Some (VDict p)"
      using that by auto
    with out show ?thesis
      by (auto simp: first_processed_found)
  qed
qed

theorem put_result_witness:
  "fst (put (answering 207 (VDict [(''processed'',
          VDict [(''items'', VList [VDict [(''a'', VInt 1), (''key'', VStr ''k'')]])])]))
      (Ref 0) (VStr ''k'') VNone VNone caller_state)
     = Inr (VDict [(''a'', VInt 1), (''key'', VStr ''k'')]) \<and>
   fst (put (answering 404 VNone) (Ref 0) (VStr ''k'') VNone VNone caller_state) = Inr VNone"
proof -
  let ?req = "\<lparr>path = ''/items'', verb = PUT,
      body = Some (VDict [(''items'', VList [VDict [(''a'', VInt 1), (''key'', VStr ''k'')]])]),
      content_type = Some JSON_MIME\<rparr>"
  have sent: "requests (snd (put (answering c b) (Ref 0) (VStr ''k'') VNone VNone
      caller_state)) = requests caller_state @ [?req]" for c b
    by (simp add: put_def new_dict_def setitem_def insert_ttl_def service_request_eq
        caller_state_def answering_def Let_def split: sum.splits)
  have ans: "transport (answering c b) (requests caller_state) ?req = Inr (c, b)" for c b
    by (simp add: answering_def)
  from put_result [OF sent ans, of 207 "VDict [(''processed'',
          VDict [(''items'', VList [VDict [(''a'', VInt 1), (''key'', VStr ''k'')]])])]"
        "VDict [(''a'', VInt 1), (''key'', VStr ''k'')]"
        "[(''processed'', VDict [(''items'', VList [VDict [(''a'', VInt 1), (''key'', VStr ''k'')]])])]"
        "[(''items'', VList [VDict [(''a'', VInt 1), (''key'', VStr ''k'')]])]"
        "VDict [(''a'', VInt 1), (''key'', VStr ''k'')]" "[]"]
    put_result [OF sent ans, of 404 VNone]
  show ?thesis by simp
qed

text \<open>
  Claim C4 as stated fails where the server reports no item processed inside a
  multi-status answer: the transport answers the request of \<^verbatim>\<open>put\<close> with status 207
  and a body whose processed items are empty, and \<^verbatim>\<open>put\<close> raises IndexError
  where the claim has it return \<^verbatim>\<open>None\<close>.
\<close>

theorem put_nothing_processed_counterexample:
  "requests (snd (put (answering 207 nothing_processed) (Ref 0) (VStr ''k'') VNone VNone
       caller_state))
     = [\<lparr>path = ''/items'', verb = PUT,
         body = Some (VDict [(''items'', VList [VDict [(''a'', VInt 1), (''key'', VStr ''k'')]])]),
         content_type = Some JSON_MIME\<rparr>] \<and>
   transport (answering 207 nothing_processed) []
       \<lparr>path = ''/items'', verb = PUT,
        body = Some (VDict [(''items'', VList [VDict [(''a'', VInt 1), (''key'', VStr ''k'')]])]),
        content_type = Some JSON_MIME\<rparr> = Inr (207, nothing_processed) \<and>
   fst (put (answering 207 nothing_processed) (Ref 0) (VStr ''k'') VNone VNone caller_state)
     = Inl IndexError \<and>
   fst (put (answering 207 nothing_processed) (Ref 0) (VStr ''k'') VNone VNone caller_state)
     \<noteq> Inr VNone"
  by (simp add: put_def new_dict_def setitem_def insert_ttl_def service_request_eq
      caller_state_def answering_def Let_def nothing_processed_def first_processed_def
      index_list_def)

section \<open>The update encoder\<close>





















section \<open>Whose dict the TTL is written to\<close>

lemma dict_set_twice: "dict_set (dict_set d k v) k v' = dict_set d k v'"
  by (induction d) auto

lemma item_data_addr:
  assumes "item_data item s = (a, s1)"
  shows "item = Ref a \<and> s1 = s \<or> (\<forall>c. item \<noteq> Ref c) \<and> a = next_addr s"
  using assms by (auto simp: new_dict_def elim!: item_data.elims)

lemma put_many_loop_requests:
  "requests (snd (put_many_loop env items expire_in expire_at acc s)) = requests s"
proof (induction items arbitrary: acc s)
  case Nil
  show ?case by simp
next
  case (Cons item items)
  obtain a s1 where d: "item_data item s = (a, s1)"
    by (cases "item_data item s")
  obtain r s2 where t: "insert_ttl env a BASE_TTL_ATTRIBUTE expire_in expire_at s1 = (r, s2)"
    by (cases "insert_ttl env a BASE_TTL_ATTRIBUTE expire_in expire_at s1")
  have "requests s2 = requests s"
    using insert_ttl_frame(1) [OF t] item_data_frame(1) [OF d] by simp
  with Cons.IH [of "acc @ [a]" s2] show ?case
    by (cases r) (simp_all add: d t)
qed

text \<open>
  When the loop of \<^verbatim>\<open>put_many\<close> completes with a TTL asked for, every dict that
  existed before and is an item of the batch has had its TTL attribute set, and every
  other dict that existed before is as it was.
\<close>

lemma put_many_loop_written:
  assumes "put_many_loop env items expire_in expire_at acc s = (Inr out, s')"
    and "truthy expire_in \<or> truthy expire_at"
    and "b < next_addr s"
  shows "(Ref b \<in> set items \<longrightarrow>
            (\<exists>t. heap s' b = dict_set (heap s b) BASE_TTL_ATTRIBUTE (VInt t))) \<and>
         (Ref b \<notin> set items \<longrightarrow> heap s' b = heap s b)"
  using assms
proof (induction items arbitrary: acc s)
  case Nil
  then show ?case by simp
next
  case (Cons item items)
  obtain a s1 where d: "item_data item s = (a, s1)"
    by (cases "item_data item s")
  obtain r s2 where t: "insert_ttl env a BASE_TTL_ATTRIBUTE expire_in expire_at s1 = (r, s2)"
    by (cases "insert_ttl env a BASE_TTL_ATTRIBUTE expire_in expire_at s1")
  from Cons.prems(1) obtain u where r: "r = Inr u"
    and rest: "put_many_loop env items expire_in expire_at (acc @ [a]) s2 = (Inr out, s')"
    by (cases r) (simp_all add: d t)
  from insert_ttl_written [OF t [unfolded r] Cons.prems(2)]
  obtain n where h2: "heap s2 = (heap s1)(a := dict_set (heap s1 a) BASE_TTL_ATTRIBUTE (VInt n))"
    by blast
  have b2: "b < next_addr s2"
    using insert_ttl_frame(2) [OF t] item_data_frame(2) [OF d] Cons.prems(3) by simp
  have h1: "heap s1 b = heap s b"
    using item_data_frame(3) [OF d Cons.prems(3)] .
  note IH = Cons.IH [OF rest Cons.prems(2) b2]
  from item_data_addr [OF d] show ?case
  proof
    assume "item = Ref a \<and> s1 = s"
    then have item: "item = Ref a" and s1: "s1 = s" by simp_all
    show ?thesis
    proof (cases "b = a")
      case True
      with IH h2 s1 item show ?thesis
        by (auto simp: dict_set_twice)
    next
      case False
      with IH h2 s1 item show ?thesis by auto
    qed
  next
    assume "(\<forall>c. item \<noteq> Ref c) \<and> a = next_addr s"
    then have "item \<noteq> Ref b" and "b \<noteq> a"
      using Cons.prems(3) by auto
    with IH h2 h1 show ?thesis by auto
  qed
qed

lemma insert_item_frame:
  assumes "b < next_addr s"
  shows "heap (snd (insert_item env data key expire_in expire_at s)) b = heap s b"
proof -
  define a where "a = next_addr s"
  define s1 where "s1 = snd (new_dict (copy_or_wrap data s) s)"
  define s2 where "s2 = (if truthy key then setitem a ''key'' key s1 else s1)"
  obtain r s3 where ttl: "insert_ttl env a BASE_TTL_ATTRIBUTE expire_in expire_at s2 = (r, s3)"
    by (cases "insert_ttl env a BASE_TTL_ATTRIBUTE expire_in expire_at s2")
  have nd: "new_dict (copy_or_wrap data s) s = (a, s1)"
    by (simp add: a_def s1_def new_dict_def)
  have ne: "b \<noteq> a" using assms by (simp add: a_def)
  have "heap s3 b = heap s2 b"
    using insert_ttl_frame(3) [OF ttl ne] .
  also have "heap s2 b = heap s b"
    using ne by (simp add: s2_def s1_def a_def heap_setitem new_dict_def)
  finally have h: "heap s3 b = heap s b" .
  show ?thesis
    using ttl h
    by (cases r)
       (simp_all add: insert_item_def nd Let_def s2_def service_request_eq
          split: sum.splits prod.splits)
qed

lemma put_frame:
  assumes "b < next_addr s"
  shows "heap (snd (put env data key expire_in expire_at s)) b = heap s b"
proof -
  define a where "a = next_addr s"
  define s1 where "s1 = snd (new_dict (copy_or_wrap data s) s)"
  define s2 where "s2 = (if truthy key then setitem a ''key'' key s1 else s1)"
  obtain r s3 where ttl: "insert_ttl env a BASE_TTL_ATTRIBUTE expire_in expire_at s2 = (r, s3)"
    by (cases "insert_ttl env a BASE_TTL_ATTRIBUTE expire_in expire_at s2")
  have nd: "new_dict (copy_or_wrap data s) s = (a, s1)"
    by (simp add: a_def s1_def new_dict_def)
  have ne: "b \<noteq> a" using assms by (simp add: a_def)
  have "heap s3 b = heap s2 b"
    using insert_ttl_frame(3) [OF ttl ne] .
  also have "heap s2 b = heap s b"
    using ne by (simp add: s2_def s1_def a_def heap_setitem new_dict_def)
  finally have h: "heap s3 b = heap s b" .
  show ?thesis
    using ttl h
    by (cases r)
       (simp_all add: put_def nd Let_def s2_def service_request_eq
          split: sum.splits prod.splits)
qed

lemma put_many_written:
  assumes "Ref a \<in> set items" and "a < next_addr s"
    and "truthy expire_in \<or> truthy expire_at"
    and "requests (snd (put_many env items expire_in expire_at s)) \<noteq> requests s"
  shows "\<exists>t. heap (snd (put_many env items expire_in expire_at s)) a
           = dict_set (heap s a) BASE_TTL_ATTRIBUTE (VInt t)"
proof -
  obtain r s1 where loop: "put_many_loop env items expire_in expire_at [] s = (r, s1)"
    by (cases "put_many_loop env items expire_in expire_at [] s")
  have r1: "requests s1 = requests s"
    using put_many_loop_requests [of env items expire_in expire_at "[]" s] loop by simp
  from assms(4) have len: "\<not> length items > 25"
    by (auto simp: put_many_def)
  show ?thesis
  proof (cases r)
    case (Inl e)
    with loop len have "put_many env items expire_in expire_at s = (Inl e, s1)"
      by (simp add: put_many_def)
    with assms(4) r1 show ?thesis by simp
  next
    case (Inr out)
    with loop len have "heap (snd (put_many env items expire_in expire_at s)) = heap s1"
      by (simp add: put_many_def service_request_eq split: sum.splits prod.splits)
    with put_many_loop_written [OF loop [unfolded Inr] assms(3) assms(2)] assms(1)
    show ?thesis by simp
  qed
qed


text \<open>
  Claim C9. \<^verbatim>\<open>put_many\<close> normalizes each item that is a dict in place: when a TTL is
  asked for and the call gets as far as its request, a dict of the caller that is an item
  of the batch holds the TTL attribute \<^verbatim>\<open>__expires\<close> afterwards, written into the
  caller's own object (its other entries are as before). \<^verbatim>\<open>insert\<close> and \<^verbatim>\<open>put\<close>
  work on a copy: after them, whatever the arguments and the outcome, every dict that
  existed before the call is as it was.
\<close>

theorem put_many_aliases_insert_put_copy:
  "(Ref a \<in> set items \<and> a < next_addr s \<and> (truthy expire_in \<or> truthy expire_at) \<and>
      requests (snd (put_many env items expire_in expire_at s)) \<noteq> requests s \<longrightarrow>
      (\<exists>t. heap (snd (put_many env items expire_in expire_at s)) a
              = dict_set (heap s a) BASE_TTL_ATTRIBUTE (VInt t) \<and>
           map_of (heap (snd (put_many env items expire_in expire_at s)) a) BASE_TTL_ATTRIBUTE
              = Some (VInt t))) \<and>
   (a < next_addr s \<longrightarrow>
      heap (snd (insert_item env data key expire_in expire_at s)) a = heap s a \<and>
      heap (snd (put env data key expire_in expire_at s)) a = heap s a)"
proof -
  have "\<exists>t. heap (snd (put_many env items expire_in expire_at s)) a
              = dict_set (heap s a) BASE_TTL_ATTRIBUTE (VInt t) \<and>
           map_of (heap (snd (put_many env items expire_in expire_at s)) a) BASE_TTL_ATTRIBUTE
              = Some (VInt t)"
    if "Ref a \<in> set items" and "a < next_addr s" and "truthy expire_in \<or> truthy expire_at"
      and "requests (snd (put_many env items expire_in expire_at s)) \<noteq> requests s"
  proof -
    from put_many_written [OF that] obtain t
      where "heap (snd (put_many env items expire_in expire_at s)) a
              = dict_set (heap s a) BASE_TTL_ATTRIBUTE (VInt t)"
      by blast
    then show ?thesis by (simp add: map_of_dict_set)
  qed
  then show ?thesis
    using insert_item_frame put_frame by blast
qed

theorem put_many_aliases_insert_put_copy_witness:
  "Ref 0 \<in> set [Ref 0, Val (VInt 7)] \<and> 0 < next_addr caller_state \<and>
   truthy (VInt 1700000000) \<and>
   (\<exists>t. heap (snd (put_many (answering 207 VNone) [Ref 0, Val (VInt 7)] VNone
            (VInt 1700000000) caller_state)) 0
          = dict_set (heap caller_state 0) BASE_TTL_ATTRIBUTE (VInt t)) \<and>
   heap (snd (put_many (answering 207 VNone) [Ref 0, Val (VInt 7)] VNone (VInt 1700000000)
      caller_state)) 0 = [(''a'', VInt 1), (''__expires'', VInt 1700000000)] \<and>
   heap (snd (insert_item (answering 201 VNone) (Ref 0) VNone VNone (VInt 1700000000)
      caller_state)) 0 = [(''a'', VInt 1)] \<and>
   heap (snd (put (answering 207 VNone) (Ref 0) VNone VNone (VInt 1700000000)
      caller_state)) 0 = [(''a'', VInt 1)]"
proof -
  let ?after = "snd (put_many (answering 207 VNone) [Ref 0, Val (VInt 7)] VNone
      (VInt 1700000000) caller_state)"
  have run: "heap ?after 0 = [(''a'', VInt 1), (''__expires'', VInt 1700000000)]"
    and sent: "requests ?after \<noteq> requests caller_state"
    by (simp_all add: put_many_def insert_ttl_def new_dict_def setitem_def service_request_eq
        answering_def caller_state_def BASE_TTL_ATTRIBUTE_def)
  have pre: "Ref 0 \<in> set [Ref 0, Val (VInt 7)]" "0 < next_addr caller_state"
    "truthy VNone \<or> truthy (VInt 1700000000)"
    by (simp_all add: caller_state_def)
  from put_many_aliases_insert_put_copy [of 0 "[Ref 0, Val (VInt 7)]" caller_state VNone
      "VInt 1700000000" "answering 207 VNone" "Ref 0" VNone]
    pre sent
  have w: "\<exists>t. heap ?after 0 = dict_set (heap caller_state 0) BASE_TTL_ATTRIBUTE (VInt t)"
    by blast
  from put_many_aliases_insert_put_copy [of 0 "[Ref 0]" caller_state VNone
      "VInt 1700000000" "answering 201 VNone" "Ref 0" VNone] pre(2)
  have i: "heap (snd (insert_item (answering 201 VNone) (Ref 0) VNone VNone (VInt 1700000000)
      caller_state)) 0 = heap caller_state 0"
    by blast
  from put_many_aliases_insert_put_copy [of 0 "[Ref 0]" caller_state VNone
      "VInt 1700000000" "answering 207 VNone" "Ref 0" VNone] pre(2)
  have p: "heap (snd (put (answering 207 VNone) (Ref 0) VNone VNone (VInt 1700000000)
      caller_state)) 0 = heap caller_state 0"
    by blast
  have c: "heap caller_state 0 = [(''a'', VInt 1)]"
    by (simp add: caller_state_def)
  from pre run w i p c show ?thesis by simp
qed

end
